theory Spec2Isabelle
  imports Main "HOL-Library.Word" "HOL-Library.Code_Target_Numeral"
begin

section \<open>Data model\<close>

text \<open>
  A Node \<open>Buffer\<close> is a sequence of bytes. The payload of an inbound socket event is an
  arbitrary JavaScript value; the handlers pass it to \<open>Buffer.from\<close>, which either yields
  the bytes of the value (a Buffer, an ArrayBuffer, a byte array, or a string through its
  UTF-8 encoding) or throws a \<open>TypeError\<close> (a number, \<open>null\<close>, \<open>undefined\<close>, a plain
  object). Only that outcome matters to the handlers, so a payload is represented by it.
\<close>

type_synonym byte = "8 word"
type_synonym buffer = "byte list"

datatype payload =
    Binary buffer
  | Unconvertible string \<comment> \<open>carries the message of the \<open>TypeError\<close> that \<open>Buffer.from\<close> throws\<close>

fun Buffer_from :: "payload \<Rightarrow> string + buffer" where
  "Buffer_from (Binary b) = Inr b"
| "Buffer_from (Unconvertible msg) = Inl msg"

text \<open>\<open>Buffer.concat(list)\<close>\<close>

definition Buffer_concat :: "buffer list \<Rightarrow> buffer" where
  "Buffer_concat bs = concat bs"

text \<open>
  The argument of an \<open>image_chunk\<close> event: an object with fields \<open>chunk\<close> and \<open>isLast\<close>
  (tested for truthiness), or a value on which reading \<open>.chunk\<close> throws (\<open>null\<close>,
  \<open>undefined\<close>), carrying the message of that \<open>TypeError\<close>.
\<close>

datatype chunk_data =
    ChunkObject (chunk: payload) (isLast: bool)
  | NoObject string

datatype in_event =
    AudioFull payload
  | ImageChunk chunk_data
  | TextMessage string
  | ClearImage
  | Disconnect

datatype out_event =
    Ai_response string string int \<comment> \<open>text, audio (base64), timestamp\<close>
  | Error string string \<comment> \<open>type, message\<close>
  | Image_received nat int \<comment> \<open>size, timestamp\<close>
  | Image_cleared

text \<open>\<open>sessionData\<close>, one per connection (lines 171-175).\<close>

record session =
  image :: "buffer option"
  imageChunks :: "buffer list"
  isProcessing :: bool

definition sessionData_init :: session where
  "sessionData_init = \<lparr> image = None, imageChunks = [], isProcessing = False \<rparr>"

section \<open>Synchronous handlers\<close>

text \<open>
  \<open>socket.on("image_chunk", ...)\<close>: the whole body is inside \<open>try\<close>; an exception thrown
  by \<open>data.chunk\<close> or \<open>Buffer.from\<close> is raised before the \<open>push\<close>.
\<close>

definition on_image_chunk :: "int \<Rightarrow> chunk_data \<Rightarrow> session \<Rightarrow> session \<times> out_event list" where
  "on_image_chunk now data s =
     (case data of
        NoObject msg \<Rightarrow> (s, [Error ''image_upload'' msg])
      | ChunkObject c is_last \<Rightarrow>
          (case Buffer_from c of
             Inl msg \<Rightarrow> (s, [Error ''image_upload'' msg])
           | Inr bufferChunk \<Rightarrow>
               (let s1 = s\<lparr> imageChunks := imageChunks s @ [bufferChunk] \<rparr> in
                if is_last then
                  (let img = Buffer_concat (imageChunks s1);
                       s2 = s1\<lparr> image := Some img, imageChunks := [] \<rparr>
                   in (s2, [Image_received (length img) now]))
                else (s1, []))))"

text \<open>\<open>socket.on("clear_image", ...)\<close>\<close>

definition on_clear_image :: "session \<Rightarrow> session \<times> out_event list" where
  "on_clear_image s = (s\<lparr> image := None \<rparr>, [Image_cleared])"

text \<open>\<open>socket.on("disconnect", ...)\<close>\<close>

definition on_disconnect :: "session \<Rightarrow> session \<times> out_event list" where
  "on_disconnect s = (s\<lparr> image := None, imageChunks := [] \<rparr>, [])"

section \<open>External services\<close>

text \<open>
  The remote services, the runtime's base64 codec, the process environment, the clock
  and the file system are not part of the repository. Their answers are parameters: every
  theorem below holds for all of them. A rejected promise is \<open>Inl\<close> of the error's
  message.
\<close>

record transcript =
  tr_status :: string
  tr_text :: "string option" \<comment> \<open>\<open>None\<close>: the field is \<open>null\<close> or \<open>undefined\<close>\<close>
  tr_error :: string \<comment> \<open>the \<open>error\<close> field, as the message that \<open>new Error(...)\<close> takes from it\<close>

datatype content_part =
    TextPart string \<comment> \<open>\<open>{ type: "text", text }\<close>\<close>
  | ImagePart string \<comment> \<open>\<open>{ type: "image", image }\<close>\<close>

record message =
  role :: string
  content :: "content_part list"

record gen_request =
  model :: string
  system :: string
  messages :: "message list"

datatype resp_part =
    RText string \<comment> \<open>a part whose \<open>type\<close> is \<open>"text"\<close>, with its \<open>text\<close>\<close>
  | ROther string \<comment> \<open>a part of any other type (reasoning, tool call, ...)\<close>

type_synonym gen_response = "resp_part list list" \<comment> \<open>\<open>response.steps\<close>, each with its \<open>content\<close>\<close>

type_synonym tts_response = "string option list list"
  \<comment> \<open>\<open>candidates\<close>, each with its \<open>content.parts\<close>, each with its \<open>inlineData.data\<close> if any\<close>

record env =
  files_upload :: "buffer \<Rightarrow> string + string"
  transcripts_create :: "string \<Rightarrow> string + string"
  transcripts_get :: "string \<Rightarrow> nat \<Rightarrow> string + transcript"
    \<comment> \<open>the answer to the n-th \<open>transcripts.get\<close> of a job\<close>
  generateText :: "gen_request \<Rightarrow> string + gen_response"
  generateContent :: "string \<Rightarrow> string + tts_response"
  toBase64 :: "buffer \<Rightarrow> string"
  fromBase64 :: "string \<Rightarrow> buffer"
  DEBUG_SAVE_AUDIO :: "string option"
  saveWaveFile :: "buffer \<Rightarrow> string + unit"
    \<comment> \<open>whether writing the debug file (lines 125-145, through \<open>wav.FileWriter\<close>) succeeds\<close>
  Date_now :: int

section \<open>Transcription (lines 197-215)\<close>

text \<open>
  The \<open>while (true)\<close> loop. It has no bound, so it is a partial function: \<open>None\<close> is a
  loop that never leaves. The result carries the milliseconds spent in \<open>setTimeout\<close>.
\<close>

partial_function (option) poll ::
  "(nat \<Rightarrow> string + transcript) \<Rightarrow> nat \<Rightarrow> nat \<Rightarrow> ((string + transcript) \<times> nat) option" where
  "poll get n ms =
     (case get n of
        Inl e \<Rightarrow> Some (Inl e, ms)
      | Inr completedTranscript \<Rightarrow>
          if tr_status completedTranscript = ''completed'' then Some (Inr completedTranscript, ms)
          else if tr_status completedTranscript = ''error''
            then Some (Inl (tr_error completedTranscript), ms)
          else poll get (Suc n) (ms + 3000))"

declare poll.simps [code]

definition transcribe :: "env \<Rightarrow> buffer \<Rightarrow> (string + string) option" where
  "transcribe e audioBuffer =
     (case files_upload e audioBuffer of
        Inl err \<Rightarrow> Some (Inl err)
      | Inr uploadResponse \<Rightarrow>
          (case transcripts_create e uploadResponse of
             Inl err \<Rightarrow> Some (Inl err)
           | Inr transcript_id \<Rightarrow>
               (case poll (transcripts_get e transcript_id) 0 0 of
                  None \<Rightarrow> None
                | Some (Inl err, _) \<Rightarrow> Some (Inl err)
                | Some (Inr completedTranscript, _) \<Rightarrow>
                    Some (Inr (case tr_text completedTranscript of
                                 None \<Rightarrow> '''' | Some t \<Rightarrow> t)))))"

section \<open>Inference: \<open>AiProcessing\<close> (aiAgent.controller.js, lines 3-35)\<close>

definition newline :: char where
  "newline = CHR 0x0A"

text \<open>\<open>Array.prototype.join\<close>\<close>

fun join :: "string \<Rightarrow> string list \<Rightarrow> string" where
  "join sep [] = []"
| "join sep [x] = x"
| "join sep (x # y # ys) = x @ sep @ join sep (y # ys)"

definition build_messages :: "env \<Rightarrow> buffer option \<Rightarrow> string \<Rightarrow> message list" where
  "build_messages e img msg =
     [\<lparr> role = ''user'', content = [TextPart msg] \<rparr>] @
     (case img of
        None \<Rightarrow> []
      | Some b \<Rightarrow>
          [\<lparr> role = ''user'',
             content = [TextPart ''Describe this image in detail'',
                        ImagePart (''data:image/png;base64,'' @ toBase64 e b)] \<rparr>])"

definition system_prompt :: string where
  "system_prompt = ''You are an intelligent assistant. Answer like a human, keep it short, clear, consistent, and do not use markdown formatting.''"

definition part_text :: "resp_part \<Rightarrow> string" where
  "part_text c = (case c of RText t \<Rightarrow> t | ROther _ \<Rightarrow> '''')"

definition resultText :: "gen_response \<Rightarrow> string" where
  "resultText steps = join [newline] (map (\<lambda>step. join [newline] (map part_text step)) steps)"

definition AiProcessing :: "env \<Rightarrow> buffer option \<Rightarrow> string \<Rightarrow> string + string" where
  "AiProcessing e img msg =
     (case generateText e \<lparr> model = ''gemini-2.5-flash'', system = system_prompt,
                              messages = build_messages e img msg \<rparr> of
        Inl err \<Rightarrow> Inl err
      | Inr response \<Rightarrow> Inr (resultText response))"

section \<open>Container framing: \<open>BufferWritable\<close> and \<open>getWaveBuffer\<close> (lines 38-81)\<close>

text \<open>\<open>BufferWritable\<close>: its state is \<open>this.chunks\<close>.\<close>

type_synonym BufferWritable = "buffer list"

definition BufferWritable_new :: BufferWritable where
  "BufferWritable_new = []"

definition BufferWritable_write :: "buffer \<Rightarrow> BufferWritable \<Rightarrow> BufferWritable" where
  "BufferWritable_write c chunks = chunks @ [c]"

definition getBuffer :: "BufferWritable \<Rightarrow> buffer" where
  "getBuffer chunks = Buffer_concat chunks"

text \<open>Little-endian fields and ASCII tags of a RIFF header.\<close>

definition ascii :: "string \<Rightarrow> buffer" where
  "ascii s = map (\<lambda>c. of_nat (of_char c)) s"

definition u16le :: "nat \<Rightarrow> buffer" where
  "u16le n = [of_nat n, of_nat (n div 256)]"

definition u32le :: "nat \<Rightarrow> buffer" where
  "u32le n = [of_nat n, of_nat (n div 256), of_nat (n div 65536), of_nat (n div 16777216)]"

definition wav_header :: "nat \<Rightarrow> nat \<Rightarrow> nat \<Rightarrow> nat \<Rightarrow> buffer" where
  "wav_header channels sampleRate bitDepth dataLength =
     ascii ''RIFF'' @ u32le (dataLength + 36) @ ascii ''WAVE'' @
     ascii ''fmt '' @ u32le 16 @ u16le 1 @ u16le channels @ u32le sampleRate @
     u32le (sampleRate * channels * bitDepth div 8) @ u16le (channels * bitDepth div 8) @
     u16le bitDepth @
     ascii ''data'' @ u32le dataLength"

text \<open>
  \<open>wav.Writer\<close> is the stream of the npm package \<open>wav\<close>, a dependency that is not
  under src/. It is modelled as \<open>getWaveBuffer\<close> uses it. Its constructor writes the
  44-byte header at once, from the format options alone: lines 68-72 pass no length, and
  no data has been written yet, so both length fields of the header hold the package's
  placeholder, a data length of 4294967195 (\<open>2^32 - 1 - 100\<close>) and a RIFF chunk size of
  that plus 36. A format value that does not fit its header field makes the constructor
  throw. The data written afterwards passes through unchanged. At the end the writer
  computes the lengths of what it was given for its \<open>header\<close> event, and fails when
  they do not fit 32 bits. The error message is abbreviated.
\<close>

definition MAX_WAV :: nat where
  "MAX_WAV = 4294967295 - 100"

definition header_fits :: "nat \<Rightarrow> nat \<Rightarrow> nat \<Rightarrow> bool" where
  "header_fits channels sampleRate bitDepth =
     (channels < 2 ^ 16 \<and> sampleRate < 2 ^ 32 \<and> sampleRate * channels * bitDepth div 8 < 2 ^ 32
      \<and> channels * bitDepth div 8 < 2 ^ 16 \<and> bitDepth < 2 ^ 16)"

definition wav_Writer :: "nat \<Rightarrow> nat \<Rightarrow> nat \<Rightarrow> buffer \<Rightarrow> string + buffer list" where
  "wav_Writer channels sampleRate bitDepth pcmData =
     (if header_fits channels sampleRate bitDepth \<and> length pcmData + 36 < 2 ^ 32
      then Inr [wav_header channels sampleRate bitDepth MAX_WAV, pcmData]
      else Inl ''value out of range'')"

text \<open>
  \<open>getWaveBuffer\<close>: the writer is piped into a fresh \<open>BufferWritable\<close>, whose \<open>_write\<close>
  receives the writer's chunks in order; the promise resolves with \<open>getBuffer()\<close> on
  \<open>finish\<close> and rejects on \<open>error\<close>.
\<close>

definition getWaveBuffer :: "buffer \<Rightarrow> nat \<Rightarrow> nat \<Rightarrow> nat \<Rightarrow> string + buffer" where
  "getWaveBuffer pcmData channels rate sampleWidth =
     (case wav_Writer channels rate (sampleWidth * 8) pcmData of
        Inl err \<Rightarrow> Inl err
      | Inr chunks \<Rightarrow>
          Inr (getBuffer (foldl (\<lambda>bufferStream c. BufferWritable_write c bufferStream)
                               BufferWritable_new chunks)))"

text \<open>
  Reading a framed buffer back, as a standard decoder does: the fields of the 44-byte
  header at their offsets, and the payload after it.
\<close>

definition le_nat :: "buffer \<Rightarrow> nat" where
  "le_nat bs = foldr (\<lambda>b acc. unat b + 256 * acc) bs 0"

definition header_field :: "nat \<Rightarrow> nat \<Rightarrow> buffer \<Rightarrow> nat" where
  "header_field off len w = le_nat (take len (drop off w))"

definition declared_channels :: "buffer \<Rightarrow> nat" where
  "declared_channels w = header_field 22 2 w"

definition declared_sampleRate :: "buffer \<Rightarrow> nat" where
  "declared_sampleRate w = header_field 24 4 w"


definition declared_bitDepth :: "buffer \<Rightarrow> nat" where
  "declared_bitDepth w = header_field 34 2 w"



definition strip_header :: "buffer \<Rightarrow> buffer" where
  "strip_header w = drop 44 w"

section \<open>Synthesis: \<open>textToAudio\<close> (lines 84-122)\<close>

text \<open>
  The handlers call the \<open>textToAudio\<close> defined beside them, which is the one modelled
  here. The controller module exports a function of the same name that the server does
  not import; it reads \<open>googleAI\<close>, which that module does not declare, so it always
  throws and never returns a buffer.
\<close>

text \<open>\<open>response.candidates?.[0]?.content?.parts?.[0]?.inlineData?.data\<close>\<close>

definition first_inline_data :: "tts_response \<Rightarrow> string option" where
  "first_inline_data response =
     (case response of
        [] \<Rightarrow> None
      | parts # _ \<Rightarrow> (case parts of [] \<Rightarrow> None | d # _ \<Rightarrow> d))"

definition textToAudio :: "env \<Rightarrow> string \<Rightarrow> string + buffer" where
  "textToAudio e txt =
     (case generateContent e txt of
        Inl err \<Rightarrow> Inl err
      | Inr response \<Rightarrow>
          (case first_inline_data response of
             None \<Rightarrow> Inl ''No audio data returned from Gemini API.''
           | Some d \<Rightarrow>
               if d = [] then Inl ''No audio data returned from Gemini API.''
               else
                 (let rawPcmBuffer = fromBase64 e d in
                  case getWaveBuffer rawPcmBuffer 1 24000 2 of
                    Inl err \<Rightarrow> Inl err
                  | Inr waveBuffer \<Rightarrow>
                      if DEBUG_SAVE_AUDIO e = Some ''true''
                      then (case saveWaveFile e rawPcmBuffer of
                              Inl err \<Rightarrow> Inl err
                            | Inr _ \<Rightarrow> Inr waveBuffer)
                      else Inr waveBuffer)))"

section \<open>The session state machine (lines 168-309)\<close>

text \<open>
  The \<open>audio_full\<close> and \<open>text_message\<close> handlers are \<open>async\<close>: a handler runs without
  interruption up to its next \<open>await\<close>, where it is suspended and other events of the
  connection are handled. A suspended handler is a task: which handler it is (that
  decides the \<open>type\<close> of the error its \<open>catch\<close> emits) and where it waits.
\<close>

datatype handler = H_audio_full | H_text_message

fun catch_type :: "handler \<Rightarrow> string" where
  "catch_type H_audio_full = ''full_audio''"
| "catch_type H_text_message = ''text_processing''"

datatype stage =
    Transcribing buffer \<comment> \<open>in upload, create or the poll loop, with \<open>audioBuffer\<close>\<close>
  | Inferring "buffer option" string \<comment> \<open>in \<open>await AiProcessing(img, message)\<close>\<close>
  | Synthesizing string \<comment> \<open>in \<open>await textToAudio(aiResponseText)\<close>\<close>

type_synonym task = "handler \<times> stage"

record config =
  sessionData :: session
  inflight :: "task list"

definition config_init :: config where
  "config_init = \<lparr> sessionData = sessionData_init, inflight = [] \<rparr>"

definition busy_rejection :: out_event where
  "busy_rejection = Error ''busy'' ''Still processing previous request''"

text \<open>The \<open>finally\<close> block, and the \<open>catch\<close> block followed by it.\<close>

definition release :: "session \<Rightarrow> session" where
  "release s = s\<lparr> isProcessing := False \<rparr>"

definition catch :: "handler \<Rightarrow> string \<Rightarrow> session \<Rightarrow> session \<times> task option \<times> out_event list" where
  "catch h msg s = (release s, None, [Error (catch_type h) msg])"

text \<open>
  \<open>socket.on("audio_full", ...)\<close> up to its first \<open>await\<close>. \<open>Buffer.from\<close> is inside the
  \<open>try\<close>: when it throws, \<open>catch\<close> and \<open>finally\<close> run before the handler returns.
\<close>

definition on_audio_full :: "payload \<Rightarrow> config \<Rightarrow> config \<times> out_event list" where
  "on_audio_full arrayBuffer c =
     (if isProcessing (sessionData c) then (c, [busy_rejection])
      else
        (let s1 = (sessionData c)\<lparr> isProcessing := True \<rparr> in
         case Buffer_from arrayBuffer of
           Inl msg \<Rightarrow> (c\<lparr> sessionData := release s1 \<rparr>, [Error (catch_type H_audio_full) msg])
         | Inr audioBuffer \<Rightarrow>
             (c\<lparr> sessionData := s1,
                 inflight := inflight c @ [(H_audio_full, Transcribing audioBuffer)] \<rparr>, [])))"

text \<open>
  \<open>socket.on("text_message", ...)\<close> up to its first \<open>await\<close>: \<open>sessionData.image\<close> is read
  when \<open>AiProcessing\<close> is called.
\<close>

definition on_text_message :: "string \<Rightarrow> config \<Rightarrow> config \<times> out_event list" where
  "on_text_message msg c =
     (if isProcessing (sessionData c) then (c, [busy_rejection])
      else
        (let s1 = (sessionData c)\<lparr> isProcessing := True \<rparr> in
         (c\<lparr> sessionData := s1,
             inflight := inflight c @ [(H_text_message, Inferring (image s1) msg)] \<rparr>, [])))"

text \<open>
  A suspended handler continues to its next \<open>await\<close> or to its end. In the audio handler
  \<open>sessionData.image\<close> is read after the transcription, when \<open>AiProcessing\<close> is called.
  A poll loop that never leaves stays suspended.
\<close>

fun resume :: "env \<Rightarrow> task \<Rightarrow> session \<Rightarrow> session \<times> task option \<times> out_event list" where
  "resume e (h, Transcribing audioBuffer) s =
     (case transcribe e audioBuffer of
        None \<Rightarrow> (s, Some (h, Transcribing audioBuffer), [])
      | Some (Inl err) \<Rightarrow> catch h err s
      | Some (Inr transcript) \<Rightarrow> (s, Some (h, Inferring (image s) transcript), []))"
| "resume e (h, Inferring img msg) s =
     (case AiProcessing e img msg of
        Inl err \<Rightarrow> catch h err s
      | Inr aiResponseText \<Rightarrow> (s, Some (h, Synthesizing aiResponseText), []))"
| "resume e (h, Synthesizing aiResponseText) s =
     (case textToAudio e aiResponseText of
        Inl err \<Rightarrow> catch h err s
      | Inr aiAudioBuffer \<Rightarrow>
          (release s, None,
           [Ai_response aiResponseText (toBase64 e aiAudioBuffer) (Date_now e)]))"

datatype input =
    Inbound in_event \<comment> \<open>the gateway dispatches an inbound event\<close>
  | Resume nat \<comment> \<open>the awaited promise of the i-th suspended handler settles\<close>

fun step :: "env \<Rightarrow> config \<Rightarrow> input \<Rightarrow> config \<times> out_event list" where
  "step e c (Inbound (AudioFull arrayBuffer)) = on_audio_full arrayBuffer c"
| "step e c (Inbound (TextMessage msg)) = on_text_message msg c"
| "step e c (Inbound (ImageChunk d)) =
     (case on_image_chunk (Date_now e) d (sessionData c) of
        (s, out) \<Rightarrow> (c\<lparr> sessionData := s \<rparr>, out))"
| "step e c (Inbound ClearImage) =
     (case on_clear_image (sessionData c) of (s, out) \<Rightarrow> (c\<lparr> sessionData := s \<rparr>, out))"
| "step e c (Inbound Disconnect) =
     (case on_disconnect (sessionData c) of (s, out) \<Rightarrow> (c\<lparr> sessionData := s \<rparr>, out))"
| "step e c (Resume i) =
     (if i < length (inflight c) then
        (case resume e (inflight c ! i) (sessionData c) of
           (s, None, out) \<Rightarrow>
             (c\<lparr> sessionData := s,
                 inflight := take i (inflight c) @ drop (Suc i) (inflight c) \<rparr>, out)
         | (s, Some t, out) \<Rightarrow>
             (c\<lparr> sessionData := s, inflight := (inflight c)[i := t] \<rparr>, out))
      else (c, []))"

fun run :: "env \<Rightarrow> config \<Rightarrow> input list \<Rightarrow> config \<times> out_event list" where
  "run e c [] = (c, [])"
| "run e c (x # xs) =
     (case step e c x of
        (c1, out1) \<Rightarrow> (case run e c1 xs of (c2, out2) \<Rightarrow> (c2, out1 @ out2)))"

section \<open>Vocabulary of the properties\<close>

text \<open>An \<open>image_chunk\<close> event whose chunk is a byte buffer, as section 6 of the spec types it.\<close>

definition chunk_event :: "bool \<Rightarrow> buffer \<Rightarrow> input" where
  "chunk_event is_last b = Inbound (ImageChunk (ChunkObject (Binary b) is_last))"

text \<open>
  An answer of \<open>transcripts.get\<close> after which the loop polls again: a transcript whose
  status is neither \<open>completed\<close> nor \<open>error\<close>.
\<close>

fun pending :: "string + transcript \<Rightarrow> bool" where
  "pending (Inl _) = False"
| "pending (Inr t) = (tr_status t \<noteq> ''completed'' \<and> tr_status t \<noteq> ''error'')"

definition pending_before :: "(nat \<Rightarrow> string + transcript) \<Rightarrow> nat \<Rightarrow> bool" where
  "pending_before get k = list_all (\<lambda>j. pending (get j)) [0..<k]"

text \<open>
  Example services: a job that is \<open>processing\<close> for two polls and then \<open>completed\<close>, a
  model that answers with two text parts, a synthesis that returns two samples.
\<close>

definition env_ok :: env where
  "env_ok =
     \<lparr> files_upload = (\<lambda>_. Inr ''url''),
       transcripts_create = (\<lambda>_. Inr ''job''),
       transcripts_get = (\<lambda>_ n.
         if n < 2 then Inr \<lparr> tr_status = ''processing'', tr_text = None, tr_error = [] \<rparr>
         else Inr \<lparr> tr_status = ''completed'', tr_text = Some ''hello'', tr_error = [] \<rparr>),
       generateText = (\<lambda>_. Inr [[RText ''a'', RText ''b'']]),
       generateContent = (\<lambda>_. Inr [[Some ''AAEAAg=='']]),
       toBase64 = (\<lambda>_. ''b64''),
       fromBase64 = (\<lambda>_. [0, 1, 0, 2]),
       DEBUG_SAVE_AUDIO = None,
       saveWaveFile = (\<lambda>_. Inr ()),
       Date_now = 0 \<rparr>"

text \<open>The same, with a job that reaches \<open>error\<close> at the third poll.\<close>

definition env_err :: env where
  "env_err = env_ok\<lparr> transcripts_get := (\<lambda>_ n.
     if n < 2 then Inr \<lparr> tr_status = ''queued'', tr_text = None, tr_error = [] \<rparr>
     else Inr \<lparr> tr_status = ''error'', tr_text = None, tr_error = ''bad audio'' \<rparr>) \<rparr>"



text \<open>
  Outbound events: the busy rejection, and the answers of a pipeline (\<open>ai_response\<close>, or
  the typed error of the handler's \<open>catch\<close>).
\<close>

fun is_busy :: "out_event \<Rightarrow> bool" where
  "is_busy (Error t m) = (t = ''busy'')"
| "is_busy _ = False"

fun is_response :: "out_event \<Rightarrow> bool" where
  "is_response (Ai_response _ _ _) = True"
| "is_response (Error t m) = (t = ''full_audio'' \<or> t = ''text_processing'')"
| "is_response _ = False"






text \<open>Single flight as an invariant of configurations.\<close>

definition inv :: "config \<Rightarrow> bool" where
  "inv c = (length (inflight c) \<le> 1 \<and> isProcessing (sessionData c) = (inflight c \<noteq> []))"

text \<open>The textual segments of a model response, in the order the model emits them.\<close>

definition text_segments :: "gen_response \<Rightarrow> string list" where
  "text_segments steps =
     concat (map (\<lambda>step. concat (map (\<lambda>c. case c of RText t \<Rightarrow> [t] | ROther _ \<Rightarrow> []) step)) steps)"

text \<open>A model that answers with no text part, and a synthesis that answers with no audio.\<close>

definition env_no_text :: env where
  "env_no_text = env_ok\<lparr> generateText := (\<lambda>_. Inr [[ROther ''reasoning'']]) \<rparr>"

definition env_no_audio :: env where
  "env_no_audio = env_ok\<lparr> generateContent := (\<lambda>_. Inr [[None]]) \<rparr>"

section \<open>Image upload\<close>

lemma run_append:
  "run e c (xs @ ys) =
     (case run e c xs of (c1, out1) \<Rightarrow> (case run e c1 ys of (c2, out2) \<Rightarrow> (c2, out1 @ out2)))"
  by (induction xs arbitrary: c) (auto split: prod.splits)

lemma step_chunk_more:
  "step e c (chunk_event False b) =
     (c\<lparr> sessionData := (sessionData c)\<lparr> imageChunks := imageChunks (sessionData c) @ [b] \<rparr> \<rparr>, [])"
  by (simp add: chunk_event_def on_image_chunk_def)

lemma step_chunk_last:
  "step e c (chunk_event True b) =
     (c\<lparr> sessionData := (sessionData c)\<lparr>
            image := Some (concat (imageChunks (sessionData c) @ [b])), imageChunks := [] \<rparr> \<rparr>,
      [Image_received (length (concat (imageChunks (sessionData c) @ [b]))) (Date_now e)])"
  by (simp add: chunk_event_def on_image_chunk_def Buffer_concat_def)

lemma run_chunks_more:
  "run e c (map (chunk_event False) bs) =
     (c\<lparr> sessionData := (sessionData c)\<lparr> imageChunks := imageChunks (sessionData c) @ bs \<rparr> \<rparr>, [])"
  by (induction bs arbitrary: c) (simp_all add: step_chunk_more)

lemma image_reassembly_general:
  "run e c (map (chunk_event False) bs @ [chunk_event True b]) =
     (c\<lparr> sessionData := (sessionData c)\<lparr>
            image := Some (concat (imageChunks (sessionData c) @ bs @ [b])), imageChunks := [] \<rparr> \<rparr>,
      [Image_received (length (concat (imageChunks (sessionData c) @ bs @ [b]))) (Date_now e)])"
  by (simp add: run_append run_chunks_more step_chunk_last)

text \<open>
  C2. Starting with an empty assembly buffer (a fresh session, or right after a terminal
  chunk), the chunks \<open>bs @ [b]\<close> arrive in this order and only the last is marked
  \<open>isLast\<close>. Afterwards \<open>image\<close> is the concatenation of all of them in arrival order,
  the assembly buffer is empty, and the only event emitted is \<open>image_received\<close> with the
  length of the concatenation as its size. Nothing else of the session changes.
\<close>

theorem image_reassembly:
  assumes "imageChunks (sessionData c) = []"
  shows "run e c (map (chunk_event False) bs @ [chunk_event True b]) =
     (c\<lparr> sessionData := (sessionData c)\<lparr> image := Some (concat (bs @ [b])), imageChunks := [] \<rparr> \<rparr>,
      [Image_received (length (concat (bs @ [b]))) (Date_now e)])"
  using assms by (simp add: run_append run_chunks_more step_chunk_last)

theorem image_reassembly_witness:
  "imageChunks (sessionData config_init) = [] \<and>
   run env_ok config_init [chunk_event False [1, 2], chunk_event False [3], chunk_event True [4, 5]] =
     (config_init\<lparr> sessionData := sessionData_init\<lparr> image := Some [1, 2, 3, 4, 5] \<rparr> \<rparr>,
      [Image_received 5 0])"
  using image_reassembly [of config_init env_ok "[[1, 2], [3]]" "[4, 5]"]
  by (simp add: config_init_def sessionData_init_def env_ok_def)

text \<open>
  C7. In every configuration, so also while \<open>isProcessing\<close> is set and a pipeline is in
  flight, an \<open>image_chunk\<close> event with a byte chunk is appended to the assembly buffer;
  a terminal one completes the reassembly and is acknowledged. The busy flag and the
  pipelines in flight are left as they are, and no \<open>image_chunk\<close> event whatsoever is
  answered with a \<open>busy\<close> error.
\<close>

theorem image_chunk_independent:
  "step e c (chunk_event False b) =
     (c\<lparr> sessionData := (sessionData c)\<lparr> imageChunks := imageChunks (sessionData c) @ [b] \<rparr> \<rparr>, [])
   \<and> step e c (chunk_event True b) =
     (c\<lparr> sessionData := (sessionData c)\<lparr>
            image := Some (concat (imageChunks (sessionData c) @ [b])), imageChunks := [] \<rparr> \<rparr>,
      [Image_received (length (concat (imageChunks (sessionData c) @ [b]))) (Date_now e)])
   \<and> isProcessing (sessionData (fst (step e c (Inbound (ImageChunk d))))) = isProcessing (sessionData c)
   \<and> inflight (fst (step e c (Inbound (ImageChunk d)))) = inflight c
   \<and> Error ''busy'' m \<notin> set (snd (step e c (Inbound (ImageChunk d))))"
proof -
  have "isProcessing (sessionData (fst (step e c (Inbound (ImageChunk d))))) = isProcessing (sessionData c)
      \<and> inflight (fst (step e c (Inbound (ImageChunk d)))) = inflight c
      \<and> Error ''busy'' m \<notin> set (snd (step e c (Inbound (ImageChunk d))))"
    by (auto simp: on_image_chunk_def Let_def split: chunk_data.splits sum.splits)
  then show ?thesis
    by (simp only: step_chunk_more step_chunk_last simp_thms)
qed

text \<open>
  C10. When \<open>Buffer.from\<close> throws on the chunk of an \<open>image_chunk\<close> event, the handler
  emits one \<open>error\<close> event of type \<open>image_upload\<close> with the exception's message and the
  configuration is unchanged: nothing is appended, \<open>image\<close> and the busy flag are as before.
\<close>

theorem image_chunk_error_atomic:
  "Buffer_from p = Inl msg \<Longrightarrow>
   step e c (Inbound (ImageChunk (ChunkObject p is_last))) = (c, [Error ''image_upload'' msg])"
  by (simp add: on_image_chunk_def)

theorem image_chunk_error_atomic_witness:
  "Buffer_from (Unconvertible ''not a buffer'') = Inl ''not a buffer'' \<and>
   step env_ok config_init (Inbound (ImageChunk (ChunkObject (Unconvertible ''not a buffer'') True))) =
     (config_init, [Error ''image_upload'' ''not a buffer''])"
  using image_chunk_error_atomic [of "Unconvertible ''not a buffer''" "''not a buffer''" env_ok config_init True]
  by simp

section \<open>Clearing the image and disconnecting\<close>

text \<open>
  C9. In every configuration, so also while a pipeline is in flight, \<open>clear_image\<close> sets
  \<open>image\<close> to absent and emits exactly \<open>image_cleared\<close> (never a \<open>busy\<close> error); the
  assembly buffer, the busy flag and the pipelines in flight are unchanged.
\<close>

theorem clear_image_frame:
  "step e c (Inbound ClearImage) =
     (c\<lparr> sessionData := (sessionData c)\<lparr> image := None \<rparr> \<rparr>, [Image_cleared])
   \<and> imageChunks (sessionData (fst (step e c (Inbound ClearImage)))) = imageChunks (sessionData c)
   \<and> isProcessing (sessionData (fst (step e c (Inbound ClearImage)))) = isProcessing (sessionData c)
   \<and> inflight (fst (step e c (Inbound ClearImage))) = inflight c"
  by (simp add: on_clear_image_def)

text \<open>
  C8, as the code has it. The \<open>disconnect\<close> handler sets \<open>image\<close> to absent and the
  assembly buffer to empty, emits nothing, and leaves the busy flag as it was: the flag is
  written by the pipeline handlers only.
\<close>

theorem disconnect_resets_image_and_chunks:
  "step e c (Inbound Disconnect) =
     (c\<lparr> sessionData := (sessionData c)\<lparr> image := None, imageChunks := [] \<rparr> \<rparr>, [])
   \<and> isProcessing (sessionData (fst (step e c (Inbound Disconnect)))) = isProcessing (sessionData c)"
  by (simp add: on_disconnect_def)

text \<open>
  C8 as claimed fails: a session that disconnects while its pipeline is in flight keeps
  \<open>isProcessing = true\<close>, so it is not back in its initial state.
\<close>

theorem disconnect_keeps_busy_counterexample:
  "isProcessing (sessionData (fst (run env_ok config_init
      [Inbound (TextMessage ''hi''), Inbound Disconnect])))
   \<and> sessionData (fst (run env_ok config_init
      [Inbound (TextMessage ''hi''), Inbound Disconnect])) \<noteq> sessionData_init"
  by (simp add: config_init_def sessionData_init_def on_text_message_def on_disconnect_def)

section \<open>Transcription\<close>

lemma poll_pending: "pending (get n) \<Longrightarrow> poll get n ms = poll get (Suc n) (ms + 3000)"
  by (subst poll.simps) (cases "get n"; simp)

lemma poll_pending_many:
  "(\<And>j. j < k \<Longrightarrow> pending (get (n + j))) \<Longrightarrow> poll get n ms = poll get (n + k) (ms + 3000 * k)"
proof (induction k arbitrary: n ms)
  case 0
  then show ?case by simp
next
  case (Suc k)
  have "pending (get n)" using Suc.prems [of 0] by simp
  then have "poll get n ms = poll get (Suc n) (ms + 3000)" by (rule poll_pending)
  also have "\<dots> = poll get (Suc n + k) (ms + 3000 + 3000 * k)"
  proof (rule Suc.IH)
    fix j assume "j < k"
    then show "pending (get (Suc n + j))" using Suc.prems [of "Suc j"] by simp
  qed
  finally show ?case by (simp add: add.assoc)
qed

lemma poll_terminal:
  assumes "get n = Inr t" "tr_status t = ''completed'' \<or> tr_status t = ''error''"
  shows "poll get n ms = Some (if tr_status t = ''completed'' then Inr t else Inl (tr_error t), ms)"
  using assms by (subst poll.simps) auto

lemma poll_result:
  assumes "pending_before get k" "get k = Inr t"
    "tr_status t = ''completed'' \<or> tr_status t = ''error''"
  shows "poll get 0 0 =
    Some (if tr_status t = ''completed'' then Inr t else Inl (tr_error t), 3000 * k)"
proof -
  have "poll get 0 0 = poll get (0 + k) (0 + 3000 * k)"
    using assms(1) by (intro poll_pending_many) (simp add: pending_before_def list_all_iff)
  then show ?thesis using poll_terminal [of get k t "3000 * k"] assms(2,3) by simp
qed

text \<open>
  C4. The audio is uploaded and the job created; the job answers \<open>k\<close> polls with a
  status that is neither \<open>completed\<close> nor \<open>error\<close>, and the next poll with one of the
  two. Then the loop leaves after exactly \<open>k\<close> waits of 3000 ms, one after each of the
  \<open>k\<close> pending polls. On \<open>completed\<close> the transcript is the job's text, or the empty
  string when the text is absent, and the handler goes on to the inference with it. On
  \<open>error\<close> the pipeline fails with the job's error message: from an idle session the
  \<open>audio_full\<close> event followed by the end of the transcription emits exactly one
  \<open>error\<close> event of type \<open>full_audio\<close> with that message, no pipeline is left in
  flight, and \<open>isProcessing\<close> is false.
\<close>

theorem transcription_contract:
  assumes "\<not> isProcessing (sessionData c)"
    and "files_upload e audio = Inr url"
    and "transcripts_create e url = Inr job"
    and "pending_before (transcripts_get e job) k"
    and "transcripts_get e job k = Inr t"
    and "tr_status t = ''completed'' \<or> tr_status t = ''error''"
  shows "poll (transcripts_get e job) 0 0 =
           Some (if tr_status t = ''completed'' then Inr t else Inl (tr_error t), 3000 * k)
       \<and> transcribe e audio =
           Some (if tr_status t = ''completed''
                 then Inr (case tr_text t of None \<Rightarrow> '''' | Some x \<Rightarrow> x)
                 else Inl (tr_error t))
       \<and> run e c [Inbound (AudioFull (Binary audio)), Resume (length (inflight c))] =
           (if tr_status t = ''completed''
            then (c\<lparr> sessionData := (sessionData c)\<lparr> isProcessing := True \<rparr>,
                     inflight := inflight c @
                       [(H_audio_full, Inferring (image (sessionData c))
                           (case tr_text t of None \<Rightarrow> '''' | Some x \<Rightarrow> x))] \<rparr>, [])
            else (c\<lparr> sessionData := (sessionData c)\<lparr> isProcessing := False \<rparr> \<rparr>,
                  [Error ''full_audio'' (tr_error t)]))"
proof -
  have p: "poll (transcripts_get e job) 0 0 =
           Some (if tr_status t = ''completed'' then Inr t else Inl (tr_error t), 3000 * k)"
    using assms(4-6) by (rule poll_result)
  have tr: "transcribe e audio =
           Some (if tr_status t = ''completed''
                 then Inr (case tr_text t of None \<Rightarrow> '''' | Some x \<Rightarrow> x)
                 else Inl (tr_error t))"
    by (simp add: transcribe_def assms(2,3) p)
  show ?thesis
    using assms(1) by (simp add: p tr on_audio_full_def catch_def release_def nth_append)
qed

theorem transcription_contract_witness:
  "(\<not> isProcessing (sessionData config_init)
    \<and> files_upload env_err [1, 2] = Inr ''url''
    \<and> transcripts_create env_err ''url'' = Inr ''job''
    \<and> pending_before (transcripts_get env_err ''job'') 2
    \<and> poll (transcripts_get env_err ''job'') 0 0 = Some (Inl ''bad audio'', 6000)
    \<and> run env_err config_init [Inbound (AudioFull (Binary [1, 2])), Resume 0] =
         (config_init, [Error ''full_audio'' ''bad audio'']))
   \<and> (pending_before (transcripts_get env_ok ''job'') 2
    \<and> poll (transcripts_get env_ok ''job'') 0 0 =
         Some (Inr \<lparr> tr_status = ''completed'', tr_text = Some ''hello'', tr_error = [] \<rparr>, 6000)
    \<and> transcribe env_ok [1, 2] = Some (Inr ''hello''))"
  using
    transcription_contract [of config_init env_err "[1, 2]" "''url''" "''job''" 2
      "\<lparr> tr_status = ''error'', tr_text = None, tr_error = ''bad audio'' \<rparr>"]
    transcription_contract [of config_init env_ok "[1, 2]" "''url''" "''job''" 2
      "\<lparr> tr_status = ''completed'', tr_text = Some ''hello'', tr_error = [] \<rparr>"]
  by (simp add: pending_before_def env_err_def env_ok_def upt_rec config_init_def
      sessionData_init_def)

section \<open>Container framing\<close>

lemma le_bytes2:
  fixes n :: nat
  assumes "n < 65536"
  shows "n mod 256 + 256 * (n div 256 mod 256) = n"
proof -
  have "n div 256 < 256" using assms by simp
  then show ?thesis by simp
qed

lemma le_bytes4:
  fixes n :: nat
  assumes "n < 4294967296"
  shows "n mod 256 + 256 * (n div 256 mod 256 +
           256 * (n div 65536 mod 256 + 256 * (n div 16777216 mod 256))) = n"
proof -
  have a: "n div 16777216 < 256" using assms by simp
  have b: "n div 16777216 = n div 65536 div 256" by (simp add: div_mult2_eq)
  have c: "n div 65536 = n div 256 div 256" by (simp add: div_mult2_eq)
  have "n div 65536 mod 256 + 256 * (n div 16777216 mod 256) = n div 65536"
    using a by (simp add: b)
  moreover have "n div 256 mod 256 + 256 * (n div 65536) = n div 256"
    by (simp add: c)
  ultimately show ?thesis by simp
qed

lemma le_nat_u32le: "n < 4294967296 \<Longrightarrow> le_nat (u32le n) = n"
  using le_bytes4 [of n] by (simp add: le_nat_def u32le_def unat_of_nat)

lemma le_nat_u16le: "n < 65536 \<Longrightarrow> le_nat (u16le n) = n"
  using le_bytes2 [of n] by (simp add: le_nat_def u16le_def unat_of_nat)

lemma length_wav_header: "length (wav_header c r b n) = 44"
  by (simp add: wav_header_def ascii_def u16le_def u32le_def)

lemma getWaveBuffer_eq:
  "getWaveBuffer pcm c r sw =
     (if header_fits c r (sw * 8) \<and> length pcm + 36 < 2 ^ 32
      then Inr (wav_header c r (sw * 8) MAX_WAV @ pcm)
      else Inl ''value out of range'')"
  by (simp add: getWaveBuffer_def wav_Writer_def getBuffer_def BufferWritable_write_def
      BufferWritable_new_def Buffer_concat_def)

lemma getWaveBuffer_default:
  "getWaveBuffer pcm 1 24000 2 =
     (if length pcm + 36 < 2 ^ 32 then Inr (wav_header 1 24000 16 MAX_WAV @ pcm)
      else Inl ''value out of range'')"
  by (simp add: getWaveBuffer_eq header_fits_def)

lemma header_field_header:
  "off + len \<le> 44 \<Longrightarrow>
   header_field off len (wav_header c r b n @ pcm) = le_nat (take len (drop off (wav_header c r b n)))"
  by (simp add: header_field_def length_wav_header)

lemma header_channels: "take 2 (drop 22 (wav_header c r b n)) = u16le c"
  by (simp add: wav_header_def ascii_def u16le_def u32le_def)

lemma header_sampleRate: "take 4 (drop 24 (wav_header c r b n)) = u32le r"
  by (simp add: wav_header_def ascii_def u16le_def u32le_def)


lemma header_bitDepth: "take 2 (drop 34 (wav_header c r b n)) = u16le b"
  by (simp add: wav_header_def ascii_def u16le_def u32le_def)


lemma framed_default:
  assumes "getWaveBuffer pcm 1 24000 2 = Inr w"
  shows "declared_channels w = 1 \<and> declared_sampleRate w = 24000 \<and> declared_bitDepth w = 16
     \<and> strip_header w = pcm \<and> length w = 44 + length pcm"
proof -
  let ?w = "wav_header 1 24000 16 MAX_WAV @ pcm"
  have w: "w = ?w"
    using assms unfolding getWaveBuffer_default by (simp split: if_splits)
  have ch: "declared_channels ?w = 1"
    by (simp add: declared_channels_def header_field_header header_channels le_nat_u16le)
  have sr: "declared_sampleRate ?w = 24000"
    by (simp add: declared_sampleRate_def header_field_header header_sampleRate le_nat_u32le)
  have bd: "declared_bitDepth ?w = 16"
    by (simp add: declared_bitDepth_def header_field_header header_bitDepth le_nat_u16le)
  have st: "strip_header ?w = pcm"
    by (simp add: strip_header_def length_wav_header)
  have ln: "length ?w = 44 + length pcm"
    by (simp add: length_wav_header)
  from ch sr bd st ln show ?thesis unfolding w by blast
qed





section \<open>Inference\<close>

lemma filter_join:
  "filter (\<lambda>c. c \<noteq> newline) (join [newline] xs) = filter (\<lambda>c. c \<noteq> newline) (concat xs)"
  by (induction "[newline]" xs rule: join.induct) simp_all

lemma concat_part_text:
  "concat (map part_text ps) = concat (concat (map (\<lambda>c. case c of RText t \<Rightarrow> [t] | ROther _ \<Rightarrow> []) ps))"
  by (induction ps) (simp_all add: part_text_def split: resp_part.splits)

lemma filter_resultText:
  "filter (\<lambda>c. c \<noteq> newline) (resultText steps) =
   filter (\<lambda>c. c \<noteq> newline) (concat (text_segments steps))"
proof -
  have "filter (\<lambda>c. c \<noteq> newline) (resultText steps) =
        concat (map (\<lambda>step. filter (\<lambda>c. c \<noteq> newline) (join [newline] (map part_text step))) steps)"
    by (simp add: resultText_def filter_join filter_concat comp_def)
  also have "\<dots> = concat (map (\<lambda>step. filter (\<lambda>c. c \<noteq> newline) (concat (map part_text step))) steps)"
    by (simp add: filter_join)
  also have "\<dots> = filter (\<lambda>c. c \<noteq> newline) (concat (text_segments steps))"
    by (induction steps) (simp_all add: text_segments_def concat_part_text)
  finally show ?thesis .
qed

text \<open>
  C3, as the code has it. The request has a text turn with the user's message and, exactly
  when an image is held, a second turn with the instruction \<open>Describe this image in detail\<close>
  and the image as a base64 \<open>data:\<close> URL. \<open>AiProcessing\<close> fails exactly when the remote
  call fails, with its error. Otherwise it returns the parts of the response in emission
  order, a non-text part counting as the empty string, the parts of a step joined by a
  newline and the steps joined by a newline: up to these newlines the result is the
  concatenation of the textual segments. A response without text is not an error; an
  empty response gives the empty string, and a single text part gives its text.
\<close>

theorem inference_contract:
  "build_messages e img msg =
     \<lparr> role = ''user'', content = [TextPart msg] \<rparr> #
     (case img of
        None \<Rightarrow> []
      | Some b \<Rightarrow>
          [\<lparr> role = ''user'',
             content = [TextPart ''Describe this image in detail'',
                        ImagePart (''data:image/png;base64,'' @ toBase64 e b)] \<rparr>])
   \<and> AiProcessing e img msg =
       (case generateText e \<lparr> model = ''gemini-2.5-flash'', system = system_prompt,
                                messages = build_messages e img msg \<rparr> of
          Inl err \<Rightarrow> Inl err
        | Inr steps \<Rightarrow> Inr (join [newline] (map (\<lambda>step. join [newline] (map part_text step)) steps)))
   \<and> filter (\<lambda>c. c \<noteq> newline) (resultText steps) =
       filter (\<lambda>c. c \<noteq> newline) (concat (text_segments steps))
   \<and> resultText [] = [] \<and> resultText [[RText t]] = t"
proof (intro conjI)
  show "build_messages e img msg =
     \<lparr> role = ''user'', content = [TextPart msg] \<rparr> #
     (case img of
        None \<Rightarrow> []
      | Some b \<Rightarrow>
          [\<lparr> role = ''user'',
             content = [TextPart ''Describe this image in detail'',
                        ImagePart (''data:image/png;base64,'' @ toBase64 e b)] \<rparr>])"
    by (simp add: build_messages_def)
  show "AiProcessing e img msg =
       (case generateText e \<lparr> model = ''gemini-2.5-flash'', system = system_prompt,
                                messages = build_messages e img msg \<rparr> of
          Inl err \<Rightarrow> Inl err
        | Inr steps \<Rightarrow> Inr (join [newline] (map (\<lambda>step. join [newline] (map part_text step)) steps)))"
    by (simp add: AiProcessing_def resultText_def split: sum.splits)
  show "filter (\<lambda>c. c \<noteq> newline) (resultText steps) =
       filter (\<lambda>c. c \<noteq> newline) (concat (text_segments steps))"
    by (rule filter_resultText)
  show "resultText [] = []" "resultText [[RText t]] = t"
    by (simp_all add: resultText_def part_text_def)
qed

text \<open>
  C3 as claimed fails. A response with the two text parts \<open>a\<close> and \<open>b\<close> yields
  \<open>a\<close>, a newline, \<open>b\<close>, which is not their concatenation \<open>ab\<close>; and a response with
  no textual content yields the empty string, not an error.
\<close>

theorem inference_contract_counterexample:
  "generateText env_ok \<lparr> model = ''gemini-2.5-flash'', system = system_prompt,
       messages = build_messages env_ok None ''hi'' \<rparr> = Inr [[RText ''a'', RText ''b'']]
   \<and> concat (text_segments [[RText ''a'', RText ''b'']]) = ''ab''
   \<and> AiProcessing env_ok None ''hi'' = Inr (''a'' @ [newline] @ ''b'')
   \<and> ''a'' @ [newline] @ ''b'' \<noteq> ''ab''
   \<and> generateText env_no_text \<lparr> model = ''gemini-2.5-flash'', system = system_prompt,
       messages = build_messages env_no_text None ''hi'' \<rparr> = Inr [[ROther ''reasoning'']]
   \<and> text_segments [[ROther ''reasoning'']] = []
   \<and> AiProcessing env_no_text None ''hi'' = Inr []"
  by (simp add: AiProcessing_def env_ok_def env_no_text_def resultText_def part_text_def
      text_segments_def newline_def)

section \<open>Synthesis\<close>

lemma textToAudio_Inr:
  assumes "textToAudio e txt = Inr w"
  shows "\<exists>response d. generateContent e txt = Inr response \<and> first_inline_data response = Some d
     \<and> d \<noteq> [] \<and> getWaveBuffer (fromBase64 e d) 1 24000 2 = Inr w"
  using assms
  by (auto simp: textToAudio_def Let_def split: sum.splits option.splits if_splits)

text \<open>
  C5. When the synthesis response has no audio payload (no first candidate, no first
  part, no inline data, or empty data), \<open>textToAudio\<close> fails with
  \<open>No audio data returned from Gemini API.\<close> Whatever \<open>textToAudio\<close> returns is the
  decoded payload of the response passed through \<open>getWaveBuffer\<close> with 1 channel,
  24000 Hz and sample width 2 (16 bits): its header declares that format, and it is 44
  header bytes followed by the payload, never the bare payload. And with a payload
  present and the debug save off, the result of \<open>textToAudio\<close> is the result of that
  framing.
\<close>

theorem synthesis_contract:
  "(generateContent e txt = Inr response
      \<and> (first_inline_data response = None \<or> first_inline_data response = Some [])
    \<longrightarrow> textToAudio e txt = Inl ''No audio data returned from Gemini API.'')
   \<and> (textToAudio e txt = Inr w \<longrightarrow>
        (\<exists>response d. generateContent e txt = Inr response
           \<and> first_inline_data response = Some d \<and> d \<noteq> []
           \<and> getWaveBuffer (fromBase64 e d) 1 24000 2 = Inr w
           \<and> declared_channels w = 1 \<and> declared_sampleRate w = 24000 \<and> declared_bitDepth w = 16
           \<and> strip_header w = fromBase64 e d
           \<and> length w = 44 + length (fromBase64 e d)))
   \<and> (generateContent e txt = Inr response \<and> first_inline_data response = Some d \<and> d \<noteq> []
        \<and> DEBUG_SAVE_AUDIO e \<noteq> Some ''true''
      \<longrightarrow> textToAudio e txt = getWaveBuffer (fromBase64 e d) 1 24000 2)"
proof (intro conjI impI)
  assume "generateContent e txt = Inr response
      \<and> (first_inline_data response = None \<or> first_inline_data response = Some [])"
  then show "textToAudio e txt = Inl ''No audio data returned from Gemini API.''"
    by (auto simp: textToAudio_def)
next
  assume "textToAudio e txt = Inr w"
  from textToAudio_Inr [OF this] obtain response d where
    a: "generateContent e txt = Inr response" "first_inline_data response = Some d" "d \<noteq> []"
      "getWaveBuffer (fromBase64 e d) 1 24000 2 = Inr w" by blast
  from a framed_default [OF a(4)]
  show "\<exists>response d. generateContent e txt = Inr response
           \<and> first_inline_data response = Some d \<and> d \<noteq> []
           \<and> getWaveBuffer (fromBase64 e d) 1 24000 2 = Inr w
           \<and> declared_channels w = 1 \<and> declared_sampleRate w = 24000 \<and> declared_bitDepth w = 16
           \<and> strip_header w = fromBase64 e d
           \<and> length w = 44 + length (fromBase64 e d)" by blast
next
  assume "generateContent e txt = Inr response \<and> first_inline_data response = Some d \<and> d \<noteq> []
        \<and> DEBUG_SAVE_AUDIO e \<noteq> Some ''true''"
  then show "textToAudio e txt = getWaveBuffer (fromBase64 e d) 1 24000 2"
    by (auto simp: textToAudio_def Let_def split: sum.splits)
qed

lemma textToAudio_env_ok_value:
  "textToAudio env_ok t = Inr (wav_header 1 24000 16 MAX_WAV @ [0, 1, 0, 2])"
proof -
  have "getWaveBuffer [0, 1, 0, 2] 1 24000 2 = Inr (wav_header 1 24000 16 MAX_WAV @ [0, 1, 0, 2])"
    unfolding getWaveBuffer_default by simp
  then show ?thesis
    by (simp add: textToAudio_def env_ok_def first_inline_data_def)
qed

theorem synthesis_contract_witness:
  "(generateContent env_no_audio ''hi'' = Inr [[None]] \<and> first_inline_data [[None]] = None
      \<and> textToAudio env_no_audio ''hi'' = Inl ''No audio data returned from Gemini API.'')
   \<and> (generateContent env_ok ''hi'' = Inr [[Some ''AAEAAg=='']]
      \<and> first_inline_data [[Some ''AAEAAg=='']] = Some ''AAEAAg==''
      \<and> DEBUG_SAVE_AUDIO env_ok \<noteq> Some ''true''
      \<and> fromBase64 env_ok ''AAEAAg=='' = [0, 1, 0, 2]
      \<and> textToAudio env_ok ''hi'' = Inr (wav_header 1 24000 16 MAX_WAV @ [0, 1, 0, 2])
      \<and> textToAudio env_ok ''hi'' = getWaveBuffer [0, 1, 0, 2] 1 24000 2
      \<and> strip_header (wav_header 1 24000 16 MAX_WAV @ [0, 1, 0, 2]) = [0, 1, 0, 2]
      \<and> length (wav_header 1 24000 16 MAX_WAV @ [0, 1, 0, 2 :: byte]) = 48)"
proof -
  have none: "generateContent env_no_audio ''hi'' = Inr [[None]]" "first_inline_data [[None]] = None"
    by (simp_all add: env_no_audio_def env_ok_def first_inline_data_def)
  have ok: "generateContent env_ok ''hi'' = Inr [[Some ''AAEAAg=='']]"
    "first_inline_data [[Some ''AAEAAg=='']] = Some ''AAEAAg==''"
    "DEBUG_SAVE_AUDIO env_ok \<noteq> Some ''true''"
    "fromBase64 env_ok ''AAEAAg=='' = [0, 1, 0, 2]"
    by (simp_all add: env_ok_def first_inline_data_def)
  let ?W = "wav_header 1 24000 16 MAX_WAV @ [0, 1, 0, 2 :: byte]"
  note v = textToAudio_env_ok_value [of "''hi''"]
  note th = synthesis_contract [of env_ok "''hi''" "[[Some ''AAEAAg=='']]" ?W "''AAEAAg==''"]
  from synthesis_contract [of env_no_audio "''hi''" "[[None]]"] none
  have a: "textToAudio env_no_audio ''hi'' = Inl ''No audio data returned from Gemini API.''"
    by blast
  from th v obtain d where d: "strip_header ?W = fromBase64 env_ok d"
    "length ?W = 44 + length (fromBase64 env_ok d)" by blast
  have fd: "fromBase64 env_ok d = [0, 1, 0, 2]" by (simp add: env_ok_def)
  from th ok have b: "textToAudio env_ok ''hi'' = getWaveBuffer [0, 1, 0, 2] 1 24000 2"
    by simp
  have c: "strip_header ?W = [0, 1, 0, 2]" "length ?W = 48"
    using d by (simp_all only: fd) simp
  from none ok v a b c show ?thesis by simp
qed

section \<open>Single-flight admission\<close>


lemma resume_cases:
  assumes "resume e t s = (s', t', out)"
  shows "(\<exists>t''. t' = Some t'' \<and> s' = s \<and> out = []) \<or>
         (t' = None \<and> s' = release s \<and> (\<exists>x. out = [x] \<and> is_response x \<and> \<not> is_busy x))"
proof (cases t)
  case (Pair h st)
  show ?thesis
    using assms unfolding Pair
    by (cases st; cases h) (auto simp: catch_def split: option.splits sum.splits)
qed









lemma step_inv: "inv c \<Longrightarrow> inv (fst (step e c x))"
proof (cases x)
  case (Inbound ev)
  assume i: "inv c"
  show ?thesis
  proof (cases ev)
    case (AudioFull p)
    then show ?thesis using i Inbound
      by (cases p) (auto simp: inv_def on_audio_full_def release_def)
  next
    case (ImageChunk d)
    then show ?thesis using i Inbound
      by (auto simp: inv_def on_image_chunk_def Let_def split: chunk_data.splits sum.splits)
  next
    case (TextMessage m)
    then show ?thesis using i Inbound by (auto simp: inv_def on_text_message_def)
  next
    case ClearImage
    then show ?thesis using i Inbound by (auto simp: inv_def on_clear_image_def)
  next
    case Disconnect
    then show ?thesis using i Inbound by (auto simp: inv_def on_disconnect_def)
  qed
next
  case (Resume i)
  assume iv: "inv c"
  show ?thesis
  proof (cases "i < length (inflight c)")
    case False
    then show ?thesis using iv Resume by simp
  next
    case True
    with iv obtain t where t: "inflight c = [t]" and i0: "i = 0"
      by (cases "inflight c") (auto simp: inv_def)
    obtain s' t' o1 where res: "resume e t (sessionData c) = (s', t', o1)"
      by (cases "resume e t (sessionData c)") auto
    from resume_cases [OF res] show ?thesis
      using iv Resume t i0 res by (auto simp: inv_def release_def)
  qed
qed

lemma run_inv: "inv c \<Longrightarrow> inv (fst (run e c xs))"
proof (induction xs arbitrary: c)
  case Nil
  then show ?case by simp
next
  case (Cons x xs)
  obtain c1 o1 where s: "step e c x = (c1, o1)" by (cases "step e c x") auto
  have "inv c1" using step_inv [OF Cons.prems, of e x] s by simp
  from Cons.IH [OF this] show ?case using s by (auto split: prod.splits)
qed

lemma single_flight_invariant: "inv (fst (run e config_init xs))"
  by (rule run_inv) (simp add: inv_def config_init_def sessionData_init_def)










end
